theory Spec2Isabelle
  imports Main "HOL-Library.AList"
begin

section \<open>The relational store of GoReddit\<close>

text \<open>
  The server keeps all of its state in one SQLite database, created by \<open>InitDatabase\<close>
  (main.go, lines 24-122), and every mutation is a method of \<open>DatabaseManager\<close> that takes the
  manager's exclusive lock (\<open>dm.mu.Lock()\<close>) for its whole body. Mutations therefore run one
  after the other, and an operation is modelled as a function from the database before it to
  its result and the database after it.

  A table is the list of its rows in insertion order. The \<open>created_at\<close> and \<open>joined_at\<close>
  columns are left out: no mutation reads them. Identifiers are Go \<open>int\<close> values bound to
  SQLite \<open>INTEGER\<close> columns; they are modelled as \<open>int\<close>. Both are 64-bit, and the only
  arithmetic on them is \<open>karma + 1\<close>, \<open>karma - 1\<close> and the next row id, whose magnitudes are
  bounded by the number of statements executed, so the wrap-around is out of reach.

  SQLite enforces a \<open>FOREIGN KEY\<close> clause only on a connection where
  \<open>PRAGMA foreign_keys\<close> is on; the setting is off unless the program turns it on.
  \<open>InitDatabase\<close> opens the database with the bare path and issues no pragma. The setting is
  the field \<open>foreign_keys\<close> of the model, so that every statement is defined for both
  settings; \<open>InitDatabase\<close> leaves it off, as the source does.
\<close>

datatype sql_error = CheckFailed | UniqueFailed | ForeignKeyFailed | NoSuchTable

datatype error =
    FailedTo string sql_error
  | StoreError sql_error
  | InvalidPayload string
  | UnhandledRequestType string

record user_row =
  user_id :: int
  username :: string
  password :: string
  karma :: int

record subreddit_row =
  subreddit_id :: int
  subreddit_name :: string
  subreddit_description :: string

record post_row =
  post_id :: int
  post_title :: string
  post_content :: string
  post_author_id :: int
  post_subreddit_id :: int

record comment_row =
  comment_id :: int
  comment_content :: string
  comment_author_id :: int
  comment_post_id :: int
  parent_comment_id :: "int option"

record vote_row =
  vote_user_id :: int
  vote_target_id :: int
  vote_target_type :: string
  vote_value :: int

record message_row =
  message_id :: int
  from_user_id :: int
  to_user_id :: int
  message_content :: string

text \<open>
  \<open>subreddit_members\<close> rows are pairs \<open>(subreddit_id, user_id)\<close> and \<open>user_subscriptions\<close>
  rows are pairs \<open>(subscriber_id, subscribed_user_id)\<close>. \<open>sqlite_sequence\<close> is SQLite's own
  table of the largest row id handed out so far for each \<open>AUTOINCREMENT\<close> table.
\<close>

record database =
  foreign_keys :: bool
  users :: "user_row list"
  subreddits :: "subreddit_row list"
  subreddit_members :: "(int \<times> int) list"
  posts :: "post_row list"
  comments :: "comment_row list"
  votes :: "vote_row list"
  direct_messages :: "message_row list"
  user_subscriptions :: "(int \<times> int) list"
  sqlite_sequence :: "(string \<times> int) list"

definition empty_database :: "bool \<Rightarrow> database" where
  "empty_database fk =
     \<lparr>foreign_keys = fk, users = [], subreddits = [], subreddit_members = [], posts = [],
      comments = [], votes = [], direct_messages = [], user_subscriptions = [],
      sqlite_sequence = []\<rparr>"

definition InitDatabase :: database where
  "InitDatabase = empty_database False"

subsection \<open>Single statements\<close>

text \<open>
  An \<open>INTEGER PRIMARY KEY AUTOINCREMENT\<close> column takes one more than the larger of the
  table's \<open>sqlite_sequence\<close> entry and the largest row id in the table, and the entry is set to
  the new id.
\<close>

definition next_rowid :: "database \<Rightarrow> string \<Rightarrow> int list \<Rightarrow> int" where
  "next_rowid db t ids =
     max (case map_of (sqlite_sequence db) t of None \<Rightarrow> 0 | Some n \<Rightarrow> n) (fold max ids 0) + 1"

definition user_exists :: "database \<Rightarrow> int \<Rightarrow> bool" where
  "user_exists db u = (u \<in> set (map user_id (users db)))"

definition subreddit_exists :: "database \<Rightarrow> int \<Rightarrow> bool" where
  "subreddit_exists db s = (s \<in> set (map subreddit_id (subreddits db)))"

definition post_exists :: "database \<Rightarrow> int \<Rightarrow> bool" where
  "post_exists db p = (p \<in> set (map post_id (posts db)))"

definition comment_exists :: "database \<Rightarrow> int \<Rightarrow> bool" where
  "comment_exists db c = (c \<in> set (map comment_id (comments db)))"

text \<open>\<open>INSERT INTO users (username, password)\<close>: \<open>username\<close> is \<open>UNIQUE\<close>, \<open>karma\<close> defaults to 0.\<close>

definition insert_user :: "database \<Rightarrow> string \<Rightarrow> string \<Rightarrow> sql_error + int \<times> database" where
  "insert_user db name pw =
     (if name \<in> set (map username (users db)) then Inl UniqueFailed
      else let i = next_rowid db ''users'' (map user_id (users db)) in
        Inr (i, db\<lparr>users := users db @ [\<lparr>user_id = i, username = name, password = pw, karma = 0\<rparr>],
                    sqlite_sequence := AList.update ''users'' i (sqlite_sequence db)\<rparr>))"

text \<open>\<open>INSERT INTO subreddits (name, description)\<close>: \<open>name\<close> is \<open>UNIQUE\<close>.\<close>

definition insert_subreddit :: "database \<Rightarrow> string \<Rightarrow> string \<Rightarrow> sql_error + int \<times> database" where
  "insert_subreddit db name descr =
     (if name \<in> set (map subreddit_name (subreddits db)) then Inl UniqueFailed
      else let i = next_rowid db ''subreddits'' (map subreddit_id (subreddits db)) in
        Inr (i, db\<lparr>subreddits := subreddits db @
                      [\<lparr>subreddit_id = i, subreddit_name = name, subreddit_description = descr\<rparr>],
                    sqlite_sequence := AList.update ''subreddits'' i (sqlite_sequence db)\<rparr>))"

text \<open>
  \<open>INSERT INTO subreddit_members (subreddit_id, user_id)\<close>: the pair is the primary key, and
  both columns are foreign keys.
\<close>

definition insert_member :: "database \<Rightarrow> int \<Rightarrow> int \<Rightarrow> sql_error + database" where
  "insert_member db sid uid =
     (if (sid, uid) \<in> set (subreddit_members db) then Inl UniqueFailed
      else if foreign_keys db \<and> \<not> (subreddit_exists db sid \<and> user_exists db uid)
        then Inl ForeignKeyFailed
      else Inr (db\<lparr>subreddit_members := subreddit_members db @ [(sid, uid)]\<rparr>))"

text \<open>
  \<open>INSERT OR IGNORE INTO subreddit_members\<close>: a primary-key conflict skips the row without an
  error. \<open>OR IGNORE\<close> does not cover foreign keys.
\<close>

definition insert_or_ignore_member :: "database \<Rightarrow> int \<Rightarrow> int \<Rightarrow> sql_error + database" where
  "insert_or_ignore_member db sid uid =
     (if (sid, uid) \<in> set (subreddit_members db) then Inr db
      else if foreign_keys db \<and> \<not> (subreddit_exists db sid \<and> user_exists db uid)
        then Inl ForeignKeyFailed
      else Inr (db\<lparr>subreddit_members := subreddit_members db @ [(sid, uid)]\<rparr>))"

text \<open>\<open>DELETE FROM subreddit_members WHERE subreddit_id = ? AND user_id = ?\<close>.\<close>

definition delete_member :: "database \<Rightarrow> int \<Rightarrow> int \<Rightarrow> sql_error + database" where
  "delete_member db sid uid =
     Inr (db\<lparr>subreddit_members := filter (\<lambda>m. m \<noteq> (sid, uid)) (subreddit_members db)\<rparr>)"

text \<open>\<open>INSERT INTO posts (title, content, author_id, subreddit_id)\<close>.\<close>

definition insert_post ::
  "database \<Rightarrow> string \<Rightarrow> string \<Rightarrow> int \<Rightarrow> int \<Rightarrow> sql_error + int \<times> database" where
  "insert_post db title content authorID subredditID =
     (if foreign_keys db \<and> \<not> (user_exists db authorID \<and> subreddit_exists db subredditID)
        then Inl ForeignKeyFailed
      else let i = next_rowid db ''posts'' (map post_id (posts db)) in
        Inr (i, db\<lparr>posts := posts db @
                      [\<lparr>post_id = i, post_title = title, post_content = content,
                        post_author_id = authorID, post_subreddit_id = subredditID\<rparr>],
                    sqlite_sequence := AList.update ''posts'' i (sqlite_sequence db)\<rparr>))"

text \<open>
  \<open>INSERT INTO comments (content, author_id, post_id, parent_comment_id)\<close>. The parent is
  \<open>NULL\<close> when the Go pointer is \<open>nil\<close>. With foreign keys on, a non-null parent has to be the
  id of a row of \<open>comments\<close> once the statement is done, and the new row is one of them.
\<close>

definition insert_comment ::
  "database \<Rightarrow> string \<Rightarrow> int \<Rightarrow> int \<Rightarrow> int option \<Rightarrow> sql_error + int \<times> database" where
  "insert_comment db content authorID postID parentCommentID =
     (let i = next_rowid db ''comments'' (map comment_id (comments db)) in
      if foreign_keys db \<and>
         \<not> (user_exists db authorID \<and> post_exists db postID \<and>
            (case parentCommentID of None \<Rightarrow> True | Some p \<Rightarrow> comment_exists db p \<or> p = i))
        then Inl ForeignKeyFailed
      else
        Inr (i, db\<lparr>comments := comments db @
                      [\<lparr>comment_id = i, comment_content = content, comment_author_id = authorID,
                        comment_post_id = postID, parent_comment_id = parentCommentID\<rparr>],
                    sqlite_sequence := AList.update ''comments'' i (sqlite_sequence db)\<rparr>))"

text \<open>
  \<open>INSERT INTO votes (user_id, target_id, target_type, vote_value)\<close>: two \<open>CHECK\<close>
  constraints, the primary key \<open>(user_id, target_id, target_type, vote_value)\<close>, and a foreign
  key on \<open>user_id\<close> only; \<open>target_id\<close> references nothing.
\<close>

definition insert_vote :: "database \<Rightarrow> int \<Rightarrow> int \<Rightarrow> string \<Rightarrow> int \<Rightarrow> sql_error + database" where
  "insert_vote db userID targetID targetType val =
     (let row = \<lparr>vote_user_id = userID, vote_target_id = targetID,
                 vote_target_type = targetType, vote_value = val\<rparr> in
      if \<not> (targetType = ''post'' \<or> targetType = ''comment'') then Inl CheckFailed
      else if \<not> (val = - 1 \<or> val = 1) then Inl CheckFailed
      else if row \<in> set (votes db) then Inl UniqueFailed
      else if foreign_keys db \<and> \<not> user_exists db userID then Inl ForeignKeyFailed
      else Inr (db\<lparr>votes := votes db @ [row]\<rparr>))"

text \<open>
  The scalar subqueries \<open>SELECT author_id FROM posts WHERE id = ?\<close> and
  \<open>SELECT author_id FROM comments WHERE id = ?\<close>: the author of the row with that id, or
  \<open>NULL\<close> when there is none. \<open>Vote\<close> picks the first for the target type \<open>post\<close> and the
  second otherwise.
\<close>

definition author_of :: "database \<Rightarrow> string \<Rightarrow> int \<Rightarrow> int option" where
  "author_of db targetType targetID =
     (if targetType = ''post''
      then map_option post_author_id (find (\<lambda>p. post_id p = targetID) (posts db))
      else map_option comment_author_id (find (\<lambda>c. comment_id c = targetID) (comments db)))"

text \<open>
  \<open>UPDATE users SET karma = karma + ? WHERE id = (SELECT author_id ...)\<close>: a \<open>NULL\<close>
  subquery matches no row.
\<close>

definition update_karma :: "database \<Rightarrow> string \<Rightarrow> int \<Rightarrow> int \<Rightarrow> sql_error + database" where
  "update_karma db targetType val targetID =
     Inr (db\<lparr>users := map (\<lambda>u. if Some (user_id u) = author_of db targetType targetID
                                then u\<lparr>karma := karma u + val\<rparr> else u) (users db)\<rparr>)"

text \<open>\<open>INSERT INTO direct_messages (from_user_id, to_user_id, content)\<close>.\<close>

definition insert_message ::
  "database \<Rightarrow> int \<Rightarrow> int \<Rightarrow> string \<Rightarrow> sql_error + int \<times> database" where
  "insert_message db fromUserID toUserID content =
     (if foreign_keys db \<and> \<not> (user_exists db fromUserID \<and> user_exists db toUserID)
        then Inl ForeignKeyFailed
      else let i = next_rowid db ''direct_messages'' (map message_id (direct_messages db)) in
        Inr (i, db\<lparr>direct_messages := direct_messages db @
                      [\<lparr>message_id = i, from_user_id = fromUserID, to_user_id = toUserID,
                        message_content = content\<rparr>],
                    sqlite_sequence := AList.update ''direct_messages'' i (sqlite_sequence db)\<rparr>))"

text \<open>\<open>INSERT OR IGNORE INTO user_subscriptions\<close> and the matching \<open>DELETE\<close>.\<close>

definition insert_or_ignore_subscription :: "database \<Rightarrow> int \<Rightarrow> int \<Rightarrow> sql_error + database" where
  "insert_or_ignore_subscription db subscriberID subscribedUserID =
     (if (subscriberID, subscribedUserID) \<in> set (user_subscriptions db) then Inr db
      else if foreign_keys db \<and> \<not> (user_exists db subscriberID \<and> user_exists db subscribedUserID)
        then Inl ForeignKeyFailed
      else Inr (db\<lparr>user_subscriptions :=
                    user_subscriptions db @ [(subscriberID, subscribedUserID)]\<rparr>))"

definition delete_subscription :: "database \<Rightarrow> int \<Rightarrow> int \<Rightarrow> sql_error + database" where
  "delete_subscription db subscriberID subscribedUserID =
     Inr (db\<lparr>user_subscriptions :=
               filter (\<lambda>s. s \<noteq> (subscriberID, subscribedUserID)) (user_subscriptions db)\<rparr>)"

text \<open>
  \<open>DELETE FROM <table>\<close> removes every row of the table. With foreign keys on, the
  statement fails when a row of another table still references one of the removed rows.
\<close>

definition referenced :: "int list \<Rightarrow> int list \<Rightarrow> bool" where
  "referenced ids refs = (\<exists>r \<in> set refs. r \<in> set ids)"

definition delete_all :: "database \<Rightarrow> string \<Rightarrow> sql_error + database" where
  "delete_all db t =
     (if t = ''direct_messages'' then Inr (db\<lparr>direct_messages := []\<rparr>)
      else if t = ''votes'' then Inr (db\<lparr>votes := []\<rparr>)
      else if t = ''comments'' then Inr (db\<lparr>comments := []\<rparr>)
      else if t = ''posts'' then
        (if foreign_keys db \<and> referenced (map post_id (posts db)) (map comment_post_id (comments db))
         then Inl ForeignKeyFailed else Inr (db\<lparr>posts := []\<rparr>))
      else if t = ''subreddit_members'' then Inr (db\<lparr>subreddit_members := []\<rparr>)
      else if t = ''subreddits'' then
        (if foreign_keys db \<and>
            referenced (map subreddit_id (subreddits db))
              (map fst (subreddit_members db) @ map post_subreddit_id (posts db))
         then Inl ForeignKeyFailed else Inr (db\<lparr>subreddits := []\<rparr>))
      else if t = ''users'' then
        (if foreign_keys db \<and>
            referenced (map user_id (users db))
              (map snd (subreddit_members db) @ map post_author_id (posts db) @
               map comment_author_id (comments db) @ map vote_user_id (votes db) @
               map from_user_id (direct_messages db) @ map to_user_id (direct_messages db) @
               map fst (user_subscriptions db) @ map snd (user_subscriptions db))
         then Inl ForeignKeyFailed else Inr (db\<lparr>users := []\<rparr>))
      else Inl NoSuchTable)"

text \<open>\<open>DELETE FROM sqlite_sequence WHERE name = '<table>'\<close>.\<close>

definition delete_sequence :: "database \<Rightarrow> string \<Rightarrow> sql_error + database" where
  "delete_sequence db t =
     Inr (db\<lparr>sqlite_sequence := filter (\<lambda>r. fst r \<noteq> t) (sqlite_sequence db)\<rparr>)"

section \<open>The mutations of \<open>DatabaseManager\<close>\<close>

text \<open>
  A method that returns \<open>(int, error)\<close> is modelled with the result type \<open>error + int\<close>, one
  that returns \<open>error\<close> with \<open>error option\<close> (\<open>None\<close> is Go's \<open>nil\<close>). A transaction works
  on a copy of the database: \<open>tx.Rollback()\<close> gives back the database the method started
  from, \<open>tx.Commit()\<close> the copy. Failures of the storage medium itself (\<open>Begin\<close>, \<open>Commit\<close>
  or \<open>LastInsertId\<close> returning an error) are not modelled.
\<close>

definition RegisterUser :: "database \<Rightarrow> string \<Rightarrow> string \<Rightarrow> (error + int) \<times> database" where
  "RegisterUser db name pw =
     (case insert_user db name pw of
        Inl e \<Rightarrow> (Inl (FailedTo ''register user'' e), db)
      | Inr (i, db') \<Rightarrow> (Inr i, db'))"

definition CreateSubreddit ::
  "database \<Rightarrow> string \<Rightarrow> string \<Rightarrow> int \<Rightarrow> (error + int) \<times> database" where
  "CreateSubreddit db name descr creatorID =
     (case insert_subreddit db name descr of
        Inl e \<Rightarrow> (Inl (FailedTo ''create subreddit'' e), db)
      | Inr (subredditID, tx1) \<Rightarrow>
          (case insert_member tx1 subredditID creatorID of
             Inl e \<Rightarrow> (Inl (FailedTo ''add creator to subreddit'' e), db)
           | Inr tx2 \<Rightarrow> (Inr subredditID, tx2)))"

definition JoinSubreddit :: "database \<Rightarrow> int \<Rightarrow> int \<Rightarrow> error option \<times> database" where
  "JoinSubreddit db userID subredditID =
     (case insert_or_ignore_member db subredditID userID of
        Inl e \<Rightarrow> (Some (StoreError e), db)
      | Inr db' \<Rightarrow> (None, db'))"

definition LeaveSubreddit :: "database \<Rightarrow> int \<Rightarrow> int \<Rightarrow> error option \<times> database" where
  "LeaveSubreddit db userID subredditID =
     (case delete_member db subredditID userID of
        Inl e \<Rightarrow> (Some (StoreError e), db)
      | Inr db' \<Rightarrow> (None, db'))"

definition CreatePost ::
  "database \<Rightarrow> string \<Rightarrow> string \<Rightarrow> int \<Rightarrow> int \<Rightarrow> (error + int) \<times> database" where
  "CreatePost db title content authorID subredditID =
     (case insert_post db title content authorID subredditID of
        Inl e \<Rightarrow> (Inl (FailedTo ''create post'' e), db)
      | Inr (i, db') \<Rightarrow> (Inr i, db'))"

definition Vote :: "database \<Rightarrow> int \<Rightarrow> int \<Rightarrow> string \<Rightarrow> int \<Rightarrow> error option \<times> database" where
  "Vote db userID targetID targetType val =
     (case insert_vote db userID targetID targetType val of
        Inl e \<Rightarrow> (Some (FailedTo ''record vote'' e), db)
      | Inr tx1 \<Rightarrow>
          (case update_karma tx1 targetType val targetID of
             Inl e \<Rightarrow> (Some (FailedTo ''update karma'' e), db)
           | Inr tx2 \<Rightarrow> (None, tx2)))"

definition CreateComment ::
  "database \<Rightarrow> string \<Rightarrow> int \<Rightarrow> int \<Rightarrow> int option \<Rightarrow> (error + int) \<times> database" where
  "CreateComment db content authorID postID parentCommentID =
     (case insert_comment db content authorID postID parentCommentID of
        Inl e \<Rightarrow> (Inl (FailedTo ''create comment'' e), db)
      | Inr (i, db') \<Rightarrow> (Inr i, db'))"

definition SendDirectMessage ::
  "database \<Rightarrow> int \<Rightarrow> int \<Rightarrow> string \<Rightarrow> (error + int) \<times> database" where
  "SendDirectMessage db fromUserID toUserID content =
     (case insert_message db fromUserID toUserID content of
        Inl e \<Rightarrow> (Inl (FailedTo ''send message'' e), db)
      | Inr (i, db') \<Rightarrow> (Inr i, db'))"

definition SubscribeToUser :: "database \<Rightarrow> int \<Rightarrow> int \<Rightarrow> error option \<times> database" where
  "SubscribeToUser db subscriberID subscribedUserID =
     (case insert_or_ignore_subscription db subscriberID subscribedUserID of
        Inl e \<Rightarrow> (Some (StoreError e), db)
      | Inr db' \<Rightarrow> (None, db'))"

definition UnsubscribeFromUser :: "database \<Rightarrow> int \<Rightarrow> int \<Rightarrow> error option \<times> database" where
  "UnsubscribeFromUser db subscriberID subscribedUserID =
     (case delete_subscription db subscriberID subscribedUserID of
        Inl e \<Rightarrow> (Some (StoreError e), db)
      | Inr db' \<Rightarrow> (None, db'))"

text \<open>
  \<open>ResetDatabase\<close> (main.go, lines 798-836) runs two loops over the same list of seven
  table names inside one transaction, and rolls back at the first statement that fails.
\<close>

definition reset_tables :: "string list" where
  "reset_tables =
     [''direct_messages'', ''votes'', ''comments'', ''posts'', ''subreddit_members'',
      ''subreddits'', ''users'']"

fun delete_rows_loop :: "database \<Rightarrow> string list \<Rightarrow> error + database" where
  "delete_rows_loop tx [] = Inr tx"
| "delete_rows_loop tx (t # ts) =
     (case delete_all tx t of
        Inl e \<Rightarrow> Inl (FailedTo (''delete from '' @ t) e)
      | Inr tx' \<Rightarrow> delete_rows_loop tx' ts)"

fun reset_sequence_loop :: "database \<Rightarrow> string list \<Rightarrow> error + database" where
  "reset_sequence_loop tx [] = Inr tx"
| "reset_sequence_loop tx (t # ts) =
     (case delete_sequence tx t of
        Inl e \<Rightarrow> Inl (FailedTo (''reset auto-increment for '' @ t) e)
      | Inr tx' \<Rightarrow> reset_sequence_loop tx' ts)"

definition ResetDatabase :: "database \<Rightarrow> error option \<times> database" where
  "ResetDatabase db =
     (case delete_rows_loop db reset_tables of
        Inl e \<Rightarrow> (Some e, db)
      | Inr tx1 \<Rightarrow>
          (case reset_sequence_loop tx1 reset_tables of
             Inl e \<Rightarrow> (Some e, db)
           | Inr tx2 \<Rightarrow> (None, tx2)))"

subsection \<open>Sequences of mutations\<close>

datatype mutation =
    MRegisterUser string string
  | MCreateSubreddit string string int
  | MJoinSubreddit int int
  | MLeaveSubreddit int int
  | MCreatePost string string int int
  | MVote int int string int
  | MCreateComment string int int "int option"
  | MSendDirectMessage int int string
  | MSubscribeToUser int int
  | MUnsubscribeFromUser int int
  | MResetDatabase

fun failed :: "error + 'a \<Rightarrow> error option" where
  "failed (Inl e) = Some e"
| "failed (Inr _) = None"

text \<open>One mutation: the error it returns, if any, and the database afterwards.\<close>

fun perform :: "mutation \<Rightarrow> database \<Rightarrow> error option \<times> database" where
  "perform (MRegisterUser name pw) db = map_prod failed id (RegisterUser db name pw)"
| "perform (MCreateSubreddit name descr creatorID) db =
     map_prod failed id (CreateSubreddit db name descr creatorID)"
| "perform (MJoinSubreddit userID subredditID) db = JoinSubreddit db userID subredditID"
| "perform (MLeaveSubreddit userID subredditID) db = LeaveSubreddit db userID subredditID"
| "perform (MCreatePost title content authorID subredditID) db =
     map_prod failed id (CreatePost db title content authorID subredditID)"
| "perform (MVote userID targetID targetType val) db = Vote db userID targetID targetType val"
| "perform (MCreateComment content authorID postID parentCommentID) db =
     map_prod failed id (CreateComment db content authorID postID parentCommentID)"
| "perform (MSendDirectMessage fromUserID toUserID content) db =
     map_prod failed id (SendDirectMessage db fromUserID toUserID content)"
| "perform (MSubscribeToUser a b) db = SubscribeToUser db a b"
| "perform (MUnsubscribeFromUser a b) db = UnsubscribeFromUser db a b"
| "perform MResetDatabase db = ResetDatabase db"

fun run :: "mutation list \<Rightarrow> database \<Rightarrow> database" where
  "run [] db = db"
| "run (m # ms) db = run ms (snd (perform m db))"

text \<open>The karma column of the user with a given id, when there is such a user.\<close>

definition karma_of :: "database \<Rightarrow> int \<Rightarrow> int option" where
  "karma_of db u = map_option karma (find (\<lambda>r. user_id r = u) (users db))"

subsection \<open>An example store\<close>

text \<open>
  Two registered users, alice (id 1) and bob (id 2), the community \<open>go\<close> created by alice,
  and one post by alice in it. The store is reached from the empty one with or without
  foreign keys.
\<close>

definition forum_with_one_post :: "bool \<Rightarrow> database" where
  "forum_with_one_post fk =
     run [MRegisterUser ''alice'' ''pw'', MRegisterUser ''bob'' ''pw'',
          MCreateSubreddit ''go'' ''d'' 1, MCreatePost ''t'' ''c'' 1 1] (empty_database fk)"

subsection \<open>The votes applied to a user's content\<close>

text \<open>
  \<open>applied_to db m a\<close> is the value that the mutation \<open>m\<close>, performed on \<open>db\<close>, applies to
  content authored by \<open>a\<close>: the vote value when \<open>m\<close> is a cast that succeeds on a post or
  comment whose author is \<open>a\<close>, and 0 otherwise. \<open>vote_total ms db a acc\<close> adds these values up
  along a sequence of mutations, starting from \<open>acc\<close>, and starts again from 0 after a
  successful reset.
\<close>

fun applied_to :: "database \<Rightarrow> mutation \<Rightarrow> int \<Rightarrow> int" where
  "applied_to db (MVote userID targetID targetType val) a =
     (if fst (Vote db userID targetID targetType val) = None \<and>
         author_of db targetType targetID = Some a
      then val else 0)"
| "applied_to db _ a = 0"

fun vote_total :: "mutation list \<Rightarrow> database \<Rightarrow> int \<Rightarrow> int \<Rightarrow> int" where
  "vote_total [] db a acc = acc"
| "vote_total (m # ms) db a acc =
     vote_total ms (snd (perform m db)) a
       (if m = MResetDatabase \<and> fst (perform m db) = None then 0
        else acc + applied_to db m a)"

text \<open>
  The same sum read off the ledger: the values of the rows of \<open>votes\<close> whose target is, in
  the store as it stands, a post or comment authored by \<open>a\<close>.
\<close>

definition ledger_total :: "database \<Rightarrow> int \<Rightarrow> int" where
  "ledger_total db a =
     sum_list (map vote_value
       (filter (\<lambda>v. author_of db (vote_target_type v) (vote_target_id v) = Some a) (votes db)))"

text \<open>
  \<open>author_known m db\<close>: when \<open>m\<close> creates a post or a comment, its author is a registered
  user of \<open>db\<close>. \<open>authors_known ms db\<close> says so for every mutation of a sequence, each at the
  store it is performed on. \<open>authors_registered db\<close> is the matching property of a store.
\<close>

fun author_known :: "mutation \<Rightarrow> database \<Rightarrow> bool" where
  "author_known (MCreatePost title content authorID subredditID) db = user_exists db authorID"
| "author_known (MCreateComment content authorID postID parentCommentID) db =
     user_exists db authorID"
| "author_known _ db = True"

fun authors_known :: "mutation list \<Rightarrow> database \<Rightarrow> bool" where
  "authors_known [] db = True"
| "authors_known (m # ms) db = (author_known m db \<and> authors_known ms (snd (perform m db)))"

definition authors_registered :: "database \<Rightarrow> bool" where
  "authors_registered db =
     ((\<forall>p \<in> set (posts db). user_exists db (post_author_id p)) \<and>
      (\<forall>c \<in> set (comments db). user_exists db (comment_author_id c)))"

section \<open>The actor pool\<close>

text \<open>
  A \<open>Request\<close> (main.go, lines 1005-1010) carries the request type, a payload behind
  \<open>interface{}\<close>, the Gin context and the result channel. The payload is a datatype with one
  constructor for each request struct and one for any other value; a failed type assertion is
  the default case of a pattern match. Of the context the workers read only
  \<open>strconv.Atoi(req.Context.GetString("user_id"))\<close> with the error dropped, which is the
  integer \<open>req_user_id\<close> (0 when the header is not a number). The HTTP responses written with
  \<open>Context.JSON\<close> are left out. The result channel is modelled by the list of the values
  sent on it, in order; it is buffered with capacity one (\<open>make(chan error, 1)\<close>), so the
  first send never blocks.
\<close>

datatype payload =
    CreatePostRequest string string int
  | CreateCommentRequest string int "int option"
  | SendMessageRequest int string
  | JoinSubredditRequest int
  | LeaveSubredditRequest int
  | CreateSubredditRequest string string
  | VoteRequest int string int
  | OtherPayload

record request =
  req_type :: string
  req_payload :: payload
  req_user_id :: int

datatype message = RequestMessage request | OtherMessage

fun processCreatePost :: "request \<Rightarrow> database \<Rightarrow> error option \<times> database" where
  "processCreatePost req db =
     (case req_payload req of
        CreatePostRequest title content subredditID \<Rightarrow>
          map_prod failed id (CreatePost db title content (req_user_id req) subredditID)
      | _ \<Rightarrow> (Some (InvalidPayload ''invalid payload''), db))"

fun processCreateComment :: "request \<Rightarrow> database \<Rightarrow> error option \<times> database" where
  "processCreateComment req db =
     (case req_payload req of
        CreateCommentRequest content postID parentCommentID \<Rightarrow>
          map_prod failed id (CreateComment db content (req_user_id req) postID parentCommentID)
      | _ \<Rightarrow> (Some (InvalidPayload ''invalid payload for create comment''), db))"

fun processSendMessage :: "request \<Rightarrow> database \<Rightarrow> error option \<times> database" where
  "processSendMessage req db =
     (case req_payload req of
        SendMessageRequest toUserID content \<Rightarrow>
          map_prod failed id (SendDirectMessage db (req_user_id req) toUserID content)
      | _ \<Rightarrow> (Some (InvalidPayload ''invalid payload for send message''), db))"

fun processJoinSubreddit :: "request \<Rightarrow> database \<Rightarrow> error option \<times> database" where
  "processJoinSubreddit req db =
     (case req_payload req of
        JoinSubredditRequest subredditID \<Rightarrow> JoinSubreddit db (req_user_id req) subredditID
      | _ \<Rightarrow> (Some (InvalidPayload ''invalid payload for join subreddit''), db))"

fun processLeaveSubreddit :: "request \<Rightarrow> database \<Rightarrow> error option \<times> database" where
  "processLeaveSubreddit req db =
     (case req_payload req of
        LeaveSubredditRequest subredditID \<Rightarrow> LeaveSubreddit db (req_user_id req) subredditID
      | _ \<Rightarrow> (Some (InvalidPayload ''invalid payload for leave subreddit''), db))"

fun processCreateSubreddit :: "request \<Rightarrow> database \<Rightarrow> error option \<times> database" where
  "processCreateSubreddit req db =
     (case req_payload req of
        CreateSubredditRequest name descr \<Rightarrow>
          map_prod failed id (CreateSubreddit db name descr (req_user_id req))
      | _ \<Rightarrow> (Some (InvalidPayload ''invalid payload for create subreddit''), db))"

fun processVote :: "request \<Rightarrow> database \<Rightarrow> error option \<times> database" where
  "processVote req db =
     (case req_payload req of
        VoteRequest targetID targetType val \<Rightarrow> Vote db (req_user_id req) targetID targetType val
      | _ \<Rightarrow> (Some (InvalidPayload ''invalid payload for vote''), db))"

text \<open>
  \<open>RequestProcessingActor.Receive\<close> (main.go, lines 1137-1169): the values the worker sends on
  \<open>msg.Result\<close>, and the database afterwards. A message that is not a \<open>*Request\<close> (the actor
  system's own lifecycle messages) matches no case of the type switch.
\<close>

fun Receive :: "message \<Rightarrow> database \<Rightarrow> error option list \<times> database" where
  "Receive (RequestMessage msg) db =
     (let (err, db') =
        (if req_type msg = ''create_post'' then processCreatePost msg db
         else if req_type msg = ''create_comment'' then processCreateComment msg db
         else if req_type msg = ''send_message'' then processSendMessage msg db
         else if req_type msg = ''join_subreddit'' then processJoinSubreddit msg db
         else if req_type msg = ''create_subreddit'' then processCreateSubreddit msg db
         else if req_type msg = ''vote'' then processVote msg db
         else if req_type msg = ''leave_subreddit'' then processLeaveSubreddit msg db
         else (Some (UnhandledRequestType (req_type msg)), db))
      in (if err \<noteq> None then [err] else [None], db'))"
| "Receive OtherMessage db = ([], db)"

text \<open>
  \<open>ActorPool\<close> (main.go, lines 1013-1061). The workers are identified by their position in
  \<open>actors\<close>. \<open>roundRobin\<close> is a Go \<open>int\<close> that stays below \<open>len(p.actors)\<close>, so it is a
  \<open>nat\<close> here. \<open>ProcessRequest\<close> reads and advances it under \<open>p.mu\<close>, hands the request to
  the selected worker and waits on the channel: \<open>received\<close> is the first value sent, and
  \<open>None\<close> when the worker sends nothing and the caller would wait forever. Indexing an empty
  \<open>actors\<close> panics; that is the result \<open>None\<close> of \<open>ProcessRequest\<close>.
\<close>

record actor_pool =
  actors :: "nat list"
  roundRobin :: nat

definition NewActorPool :: "nat \<Rightarrow> actor_pool" where
  "NewActorPool poolSize = \<lparr>actors = [0..<poolSize], roundRobin = 0\<rparr>"

record submission =
  worker_index :: nat
  sent :: "error option list"
  received :: "error option option"

definition ProcessRequest ::
  "actor_pool \<Rightarrow> string \<Rightarrow> payload \<Rightarrow> int \<Rightarrow> database \<Rightarrow>
   submission option \<times> actor_pool \<times> database" where
  "ProcessRequest p requestType pl ctx db =
     (if roundRobin p < length (actors p) then
        (let i = roundRobin p;
             p' = p\<lparr>roundRobin := (roundRobin p + 1) mod length (actors p)\<rparr>;
             (resultChan, db') =
               Receive (RequestMessage \<lparr>req_type = requestType, req_payload = pl,
                                        req_user_id = ctx\<rparr>) db
         in (Some \<lparr>worker_index = i, sent = resultChan,
                   received = (case resultChan of [] \<Rightarrow> None | r # _ \<Rightarrow> Some r)\<rparr>, p', db'))
      else (None, p, db))"

text \<open>
  Consecutive submissions: each request is handed in after the one before it has returned.
  The list holds one entry for every request that was submitted.
\<close>

fun submit_all :: "actor_pool \<Rightarrow> request list \<Rightarrow> database \<Rightarrow> submission list" where
  "submit_all p [] db = []"
| "submit_all p (r # rs) db =
     (case ProcessRequest p (req_type r) (req_payload r) (req_user_id r) db of
        (None, _, _) \<Rightarrow> []
      | (Some s, p', db') \<Rightarrow> s # submit_all p' rs db')"

section \<open>Properties of the store\<close>

lemmas statement_defs =
  insert_user_def insert_subreddit_def insert_member_def insert_or_ignore_member_def
  delete_member_def insert_post_def insert_comment_def insert_vote_def update_karma_def
  insert_message_def insert_or_ignore_subscription_def delete_subscription_def

lemmas method_defs =
  RegisterUser_def CreateSubreddit_def JoinSubreddit_def LeaveSubreddit_def CreatePost_def
  Vote_def CreateComment_def SendDirectMessage_def SubscribeToUser_def UnsubscribeFromUser_def

lemmas eval_defs =
  statement_defs method_defs InitDatabase_def empty_database_def next_rowid_def
  user_exists_def subreddit_exists_def post_exists_def comment_exists_def author_of_def
  referenced_def karma_of_def Let_def

subsection \<open>Reset in closed form\<close>

lemma delete_all_simps:
  "delete_all db ''direct_messages'' = Inr (db\<lparr>direct_messages := []\<rparr>)"
  "delete_all db ''votes'' = Inr (db\<lparr>votes := []\<rparr>)"
  "delete_all db ''comments'' = Inr (db\<lparr>comments := []\<rparr>)"
  "delete_all db ''posts'' =
     (if foreign_keys db \<and> referenced (map post_id (posts db)) (map comment_post_id (comments db))
      then Inl ForeignKeyFailed else Inr (db\<lparr>posts := []\<rparr>))"
  "delete_all db ''subreddit_members'' = Inr (db\<lparr>subreddit_members := []\<rparr>)"
  "delete_all db ''subreddits'' =
     (if foreign_keys db \<and>
         referenced (map subreddit_id (subreddits db))
           (map fst (subreddit_members db) @ map post_subreddit_id (posts db))
      then Inl ForeignKeyFailed else Inr (db\<lparr>subreddits := []\<rparr>))"
  "delete_all db ''users'' =
     (if foreign_keys db \<and>
         referenced (map user_id (users db))
           (map snd (subreddit_members db) @ map post_author_id (posts db) @
            map comment_author_id (comments db) @ map vote_user_id (votes db) @
            map from_user_id (direct_messages db) @ map to_user_id (direct_messages db) @
            map fst (user_subscriptions db) @ map snd (user_subscriptions db))
      then Inl ForeignKeyFailed else Inr (db\<lparr>users := []\<rparr>))"
  by (simp_all add: delete_all_def)

lemma referenced_Nil: "referenced ids [] = False"
  by (simp add: referenced_def)

lemma delete_rows_loop_eq:
  "delete_rows_loop db reset_tables =
     (if foreign_keys db \<and>
         referenced (map user_id (users db))
           (map fst (user_subscriptions db) @ map snd (user_subscriptions db))
      then Inl (FailedTo ''delete from users'' ForeignKeyFailed)
      else Inr (db\<lparr>direct_messages := [], votes := [], comments := [], posts := [],
                     subreddit_members := [], subreddits := [], users := []\<rparr>))"
  by (simp add: reset_tables_def delete_all_simps referenced_Nil)

lemma reset_sequence_loop_eq:
  "reset_sequence_loop db ts =
     Inr (db\<lparr>sqlite_sequence := filter (\<lambda>r. fst r \<notin> set ts) (sqlite_sequence db)\<rparr>)"
proof (induction ts arbitrary: db)
  case Nil
  show ?case by simp
next
  case (Cons t ts)
  have "filter (\<lambda>r. fst r \<notin> set ts) (filter (\<lambda>r. fst r \<noteq> t) (sqlite_sequence db)) =
        filter (\<lambda>r. fst r \<notin> set (t # ts)) (sqlite_sequence db)"
    by (auto intro: filter_cong)
  then show ?case by (simp add: delete_sequence_def Cons.IH)
qed

lemma ResetDatabase_eq:
  "ResetDatabase db =
     (if foreign_keys db \<and>
         referenced (map user_id (users db))
           (map fst (user_subscriptions db) @ map snd (user_subscriptions db))
      then (Some (FailedTo ''delete from users'' ForeignKeyFailed), db)
      else (None, db\<lparr>direct_messages := [], votes := [], comments := [], posts := [],
                     subreddit_members := [], subreddits := [], users := [],
                     sqlite_sequence :=
                       filter (\<lambda>r. fst r \<notin> set reset_tables) (sqlite_sequence db)\<rparr>))"
  by (simp add: ResetDatabase_def delete_rows_loop_eq reset_sequence_loop_eq)

subsection \<open>Community creation\<close>




subsection \<open>Membership\<close>

lemma perform_members_distinct:
  "distinct (subreddit_members db) \<Longrightarrow> distinct (subreddit_members (snd (perform m db)))"
  by (cases m)
     (auto simp: ResetDatabase_eq statement_defs method_defs Let_def
           split: sum.splits prod.splits if_splits)

lemma run_members_distinct:
  "distinct (subreddit_members db) \<Longrightarrow> distinct (subreddit_members (run ms db))"
  by (induction ms arbitrary: db) (simp_all add: perform_members_distinct)


lemma JoinSubreddit_member:
  "(subredditID, userID) \<in> set (subreddit_members db) \<Longrightarrow>
   JoinSubreddit db userID subredditID = (None, db)"
  by (simp add: JoinSubreddit_def insert_or_ignore_member_def)

lemma JoinSubreddit_twice:
  "JoinSubreddit (snd (JoinSubreddit db userID subredditID)) userID subredditID =
   JoinSubreddit db userID subredditID"
  by (simp add: JoinSubreddit_def insert_or_ignore_member_def user_exists_def subreddit_exists_def)

lemma LeaveSubreddit_absent:
  "(subredditID, userID) \<notin> set (subreddit_members db) \<Longrightarrow>
   LeaveSubreddit db userID subredditID = (None, db)"
proof -
  assume "(subredditID, userID) \<notin> set (subreddit_members db)"
  then have "filter (\<lambda>m. m \<noteq> (subredditID, userID)) (subreddit_members db) = subreddit_members db"
    by (auto simp: filter_id_conv)
  then show ?thesis by (simp add: LeaveSubreddit_def delete_member_def)
qed

text \<open>
  C7: joining a community the user is already a member of succeeds and changes nothing;
  joining twice gives the same result and the same store as joining once; leaving a
  community the user is not a member of succeeds and changes nothing, and leaving never
  returns an error; and in every store reached from the empty one by any mutations, no
  \<open>(community, user)\<close> pair has two membership rows.
\<close>

theorem membership_idempotent:
  "((subredditID, userID) \<in> set (subreddit_members db) \<longrightarrow>
      JoinSubreddit db userID subredditID = (None, db)) \<and>
   JoinSubreddit (snd (JoinSubreddit db userID subredditID)) userID subredditID =
     JoinSubreddit db userID subredditID \<and>
   ((subredditID, userID) \<notin> set (subreddit_members db) \<longrightarrow>
      LeaveSubreddit db userID subredditID = (None, db)) \<and>
   fst (LeaveSubreddit db userID subredditID) = None \<and>
   distinct (subreddit_members (run ms (empty_database fk)))"
proof -
  have "distinct (subreddit_members (empty_database fk))"
    by (simp add: empty_database_def)
  then have "distinct (subreddit_members (run ms (empty_database fk)))"
    by (rule run_members_distinct)
  moreover have "fst (LeaveSubreddit db userID subredditID) = None"
    by (simp add: LeaveSubreddit_def delete_member_def)
  ultimately show ?thesis
    using JoinSubreddit_member [of subredditID userID db]
      JoinSubreddit_twice [of db userID subredditID]
      LeaveSubreddit_absent [of subredditID userID db]
    by blast
qed

theorem membership_idempotent_witness:
  "(1, 7) \<in> set (subreddit_members (snd (JoinSubreddit InitDatabase 7 1))) \<and>
   JoinSubreddit (snd (JoinSubreddit InitDatabase 7 1)) 7 1 =
     (None, snd (JoinSubreddit InitDatabase 7 1)) \<and>
   subreddit_members (snd (JoinSubreddit InitDatabase 7 1)) = [(1, 7)] \<and>
   (2, 9) \<notin> set (subreddit_members (snd (JoinSubreddit InitDatabase 7 1))) \<and>
   LeaveSubreddit (snd (JoinSubreddit InitDatabase 7 1)) 9 2 =
     (None, snd (JoinSubreddit InitDatabase 7 1))"
proof -
  have m: "subreddit_members (snd (JoinSubreddit InitDatabase 7 1)) = [(1, 7)]"
    by (simp add: JoinSubreddit_def insert_or_ignore_member_def InitDatabase_def
          empty_database_def)
  from membership_idempotent [of 1 7 "snd (JoinSubreddit InitDatabase 7 1)" "[]" False]
    membership_idempotent [of 2 9 "snd (JoinSubreddit InitDatabase 7 1)" "[]" False] m
  show ?thesis by simp
qed

subsection \<open>Karma and the user table\<close>

lemma find_append:
  "find P (xs @ ys) = (case find P xs of None \<Rightarrow> find P ys | Some x \<Rightarrow> Some x)"
  by (induction xs) simp_all

lemma fold_max_ge: "(b::int) \<le> fold max xs b"
proof (induction xs arbitrary: b)
  case Nil
  show ?case by simp
next
  case (Cons y ys)
  have "b \<le> max y b" by simp
  also have "max y b \<le> fold max ys (max y b)" by (rule Cons.IH)
  finally show ?case by simp
qed

lemma fold_max_upper: "(x::int) \<in> set xs \<Longrightarrow> x \<le> fold max xs b"
proof (induction xs arbitrary: b)
  case Nil
  then show ?case by simp
next
  case (Cons y ys)
  show ?case
  proof (cases "x = y")
    case True
    have "max y b \<le> fold max ys (max y b)" by (rule fold_max_ge)
    with True show ?thesis by simp
  next
    case False
    with Cons show ?thesis by simp
  qed
qed

lemma next_rowid_fresh: "next_rowid db t ids \<notin> set ids"
proof
  assume "next_rowid db t ids \<in> set ids"
  then have "next_rowid db t ids \<le> fold max ids 0" by (rule fold_max_upper)
  then show False by (simp add: next_rowid_def)
qed

lemma find_SomeD: "find P xs = Some x \<Longrightarrow> x \<in> set xs \<and> P x"
  by (induction xs) (auto split: if_splits)

lemma find_user_None:
  "\<not> user_exists db a \<Longrightarrow> find (\<lambda>r. user_id r = a) (users db) = None"
  by (auto simp: find_None_iff user_exists_def)

lemma find_user_Some:
  "user_exists db a \<Longrightarrow> \<exists>r. find (\<lambda>r. user_id r = a) (users db) = Some r"
  by (cases "find (\<lambda>r. user_id r = a) (users db)")
     (auto simp: find_None_iff user_exists_def)

lemma karma_of_append:
  assumes "users db' = users db @ [r]"
  shows "karma_of db' a =
     (if user_exists db a then karma_of db a
      else if user_id r = a then Some (karma r) else None)"
proof (cases "user_exists db a")
  case True
  from find_user_Some [OF True] show ?thesis
    using True assms by (auto simp: karma_of_def find_append)
next
  case False
  from find_user_None [OF False] show ?thesis
    using False assms by (simp add: karma_of_def find_append)
qed

lemma user_exists_karma: "user_exists db a \<longleftrightarrow> karma_of db a \<noteq> None"
  by (cases "user_exists db a") (auto simp: karma_of_def dest: find_user_Some find_user_None)

lemma RegisterUser_cases:
  "(\<exists>e. RegisterUser db name pw = (Inl e, db)) \<or>
   (\<exists>i db'. RegisterUser db name pw = (Inr i, db') \<and> \<not> user_exists db i \<and>
      users db' = users db @ [\<lparr>user_id = i, username = name, password = pw, karma = 0\<rparr>] \<and>
      foreign_keys db' = foreign_keys db \<and> posts db' = posts db \<and> comments db' = comments db)"
  using next_rowid_fresh [of db "''users''" "map user_id (users db)"]
  by (simp add: RegisterUser_def insert_user_def Let_def user_exists_def)

lemma RegisterUser_karma:
  "karma_of (snd (RegisterUser db name pw)) a =
     (if user_exists db a then karma_of db a
      else if fst (RegisterUser db name pw) = Inr a then Some 0 else None)"
proof -
  from RegisterUser_cases [of db name pw] show ?thesis
  proof (elim disjE exE conjE)
    fix e assume "RegisterUser db name pw = (Inl e, db)"
    then show ?thesis using user_exists_karma [of db a] by auto
  next
    fix i db'
    assume r: "RegisterUser db name pw = (Inr i, db')"
      and u: "users db' = users db @ [\<lparr>user_id = i, username = name, password = pw, karma = 0\<rparr>]"
    from karma_of_append [OF u, of a] r show ?thesis by auto
  qed
qed

text \<open>
  C10: a mutation that is neither a cast vote nor a reset (registering a user, creating a
  community, joining or leaving one, creating a post or a comment, sending a message,
  subscribing or unsubscribing) leaves the karma of every existing user as it was; the only
  karma value it can bring into being is the 0 of a newly registered user.
\<close>

theorem karma_frame:
  assumes "\<forall>userID targetID targetType val. m \<noteq> MVote userID targetID targetType val"
    and "m \<noteq> MResetDatabase"
  shows "(user_exists db a \<longrightarrow> karma_of (snd (perform m db)) a = karma_of db a) \<and>
         (\<not> user_exists db a \<longrightarrow>
            karma_of (snd (perform m db)) a = None \<or> karma_of (snd (perform m db)) a = Some 0)"
proof (cases m)
  case (MRegisterUser name pw)
  then show ?thesis by (simp add: RegisterUser_karma)
next
  case (MVote x1 x2 x3 x4)
  with assms show ?thesis by simp
next
  case MResetDatabase
  with assms show ?thesis by simp
qed (auto simp: karma_of_def user_exists_karma statement_defs method_defs Let_def
          split: sum.splits prod.splits if_splits)

theorem karma_frame_witness:
  "user_exists (run [MRegisterUser ''alice'' ''pw'', MCreatePost ''t'' ''c'' 1 1,
                     MVote 2 1 ''post'' 1] InitDatabase) 1 \<and>
   karma_of (run [MRegisterUser ''alice'' ''pw'', MCreatePost ''t'' ''c'' 1 1,
                  MVote 2 1 ''post'' 1] InitDatabase) 1 = Some 1 \<and>
   karma_of (snd (perform (MCreateComment ''hi'' 1 1 None)
                    (run [MRegisterUser ''alice'' ''pw'', MCreatePost ''t'' ''c'' 1 1,
                          MVote 2 1 ''post'' 1] InitDatabase))) 1 = Some 1"
proof -
  have k: "karma_of (run [MRegisterUser ''alice'' ''pw'', MCreatePost ''t'' ''c'' 1 1,
                  MVote 2 1 ''post'' 1] InitDatabase) 1 = Some 1"
    by (simp add: eval_defs)
  then have u: "user_exists (run [MRegisterUser ''alice'' ''pw'', MCreatePost ''t'' ''c'' 1 1,
                     MVote 2 1 ''post'' 1] InitDatabase) 1"
    by (simp add: user_exists_karma)
  from karma_frame [of "MCreateComment ''hi'' 1 1 None"
        "run [MRegisterUser ''alice'' ''pw'', MCreatePost ''t'' ''c'' 1 1,
              MVote 2 1 ''post'' 1] InitDatabase" 1] k u
  show ?thesis by simp
qed

subsection \<open>Casting votes\<close>

lemma forum_with_one_post_eq:
  "forum_with_one_post fk =
    \<lparr>foreign_keys = fk,
     users = [\<lparr>user_id = 1, username = ''alice'', password = ''pw'', karma = 0\<rparr>,
              \<lparr>user_id = 2, username = ''bob'', password = ''pw'', karma = 0\<rparr>],
     subreddits = [\<lparr>subreddit_id = 1, subreddit_name = ''go'', subreddit_description = ''d''\<rparr>],
     subreddit_members = [(1, 1)],
     posts = [\<lparr>post_id = 1, post_title = ''t'', post_content = ''c'',
               post_author_id = 1, post_subreddit_id = 1\<rparr>],
     comments = [], votes = [], direct_messages = [], user_subscriptions = [],
     sqlite_sequence = [(''users'', 2), (''subreddits'', 1), (''posts'', 1)]\<rparr>"
  by (simp add: forum_with_one_post_def eval_defs)

lemma insert_vote_success:
  "insert_vote db u t tt v = Inr tx \<Longrightarrow>
   tx = db\<lparr>votes := votes db @ [\<lparr>vote_user_id = u, vote_target_id = t,
                                   vote_target_type = tt, vote_value = v\<rparr>]\<rparr> \<and>
   (tt = ''post'' \<or> tt = ''comment'') \<and> (v = - 1 \<or> v = 1)"
  by (auto simp: insert_vote_def Let_def split: if_splits)

lemma Vote_success:
  assumes "Vote db u t tt v = (None, db')"
  shows "db' = db\<lparr>votes := votes db @ [\<lparr>vote_user_id = u, vote_target_id = t,
                                   vote_target_type = tt, vote_value = v\<rparr>],
                  users := map (\<lambda>r. if Some (user_id r) = author_of db tt t
                                then r\<lparr>karma := karma r + v\<rparr> else r) (users db)\<rparr>"
    and "(tt = ''post'' \<or> tt = ''comment'') \<and> (v = - 1 \<or> v = 1)"
proof -
  from assms obtain tx where tx: "insert_vote db u t tt v = Inr tx"
    by (auto simp: Vote_def split: sum.splits)
  note s = insert_vote_success [OF tx]
  from s show "(tt = ''post'' \<or> tt = ''comment'') \<and> (v = - 1 \<or> v = 1)" by simp
  have "author_of tx tt t = author_of db tt t"
    using s by (simp add: author_of_def)
  with assms tx s show "db' = db\<lparr>votes := votes db @ [\<lparr>vote_user_id = u, vote_target_id = t,
                                   vote_target_type = tt, vote_value = v\<rparr>],
                  users := map (\<lambda>r. if Some (user_id r) = author_of db tt t
                                then r\<lparr>karma := karma r + v\<rparr> else r) (users db)\<rparr>"
    by (simp add: Vote_def update_karma_def)
qed

lemma Vote_failure: "Vote db u t tt v = (Some e, db') \<Longrightarrow> db' = db"
  by (auto simp: Vote_def update_karma_def split: sum.splits)

lemma perform_votes_kept:
  assumes "m \<noteq> MResetDatabase"
  shows "set (votes db) \<subseteq> set (votes (snd (perform m db)))"
  using assms
  by (cases m)
     (auto simp: statement_defs method_defs Let_def split: sum.splits prod.splits if_splits)

lemma run_votes_kept:
  "MResetDatabase \<notin> set ms \<Longrightarrow> set (votes db) \<subseteq> set (votes (run ms db))"
proof (induction ms arbitrary: db)
  case Nil
  show ?case by simp
next
  case (Cons m ms)
  then have "m \<noteq> MResetDatabase" and "MResetDatabase \<notin> set ms" by auto
  from perform_votes_kept [OF this(1), of db] Cons.IH [OF this(2), of "snd (perform m db)"]
  show ?case by auto
qed

text \<open>
  What \<open>Vote\<close> does with a repeated cast: a user who has successfully cast a vote on a
  target and casts the same vote again (same target, same kind, same value), at once or
  after any mutations other than a reset, is turned down. The statement is a plain
  \<open>INSERT\<close> and the ledger's primary key is
  \<open>(user_id, target_id, target_type, vote_value)\<close>, so the second insert fails, the
  transaction is rolled back and the method returns the error.
\<close>

theorem revote_same_direction_rejected:
  assumes "Vote db userID targetID targetType val = (None, db1)"
    and "MResetDatabase \<notin> set ms"
  shows "Vote (run ms db1) userID targetID targetType val =
           (Some (FailedTo ''record vote'' UniqueFailed), run ms db1)"
proof -
  let ?row = "\<lparr>vote_user_id = userID, vote_target_id = targetID,
               vote_target_type = targetType, vote_value = val\<rparr>"
  from Vote_success(1) [OF assms(1)] have "?row \<in> set (votes db1)" by simp
  with run_votes_kept [OF assms(2), of db1] have "?row \<in> set (votes (run ms db1))" by auto
  with Vote_success(2) [OF assms(1)] show ?thesis
    by (simp add: Vote_def insert_vote_def)
qed

text \<open>
  C5: the claim that a user who has already cast a vote on a target can cast it again in
  the same direction, the cast succeeding as a further ledger row and adding its value to
  the author's karma once more. The source marks the insert of \<open>Vote\<close> with the comment
  \<open>Upsert vote\<close> (main.go, line 285), and the other methods that can meet an existing key,
  \<open>JoinSubreddit\<close> and \<open>SubscribeToUser\<close>, insert with \<open>OR IGNORE\<close>; the statement of
  \<open>Vote\<close> is a plain \<open>INSERT\<close>. Bob votes +1 on alice's post and alice's karma becomes
  1; the same cast again returns the primary-key error and leaves the store, alice's karma
  included, as it was, with foreign keys off and on.
\<close>

theorem revote_same_direction_fails:
  "fst (Vote (forum_with_one_post False) 2 1 ''post'' 1) = None \<and>
   karma_of (snd (Vote (forum_with_one_post False) 2 1 ''post'' 1)) 1 = Some 1 \<and>
   Vote (snd (Vote (forum_with_one_post False) 2 1 ''post'' 1)) 2 1 ''post'' 1 =
     (Some (FailedTo ''record vote'' UniqueFailed),
      snd (Vote (forum_with_one_post False) 2 1 ''post'' 1)) \<and>
   fst (Vote (forum_with_one_post True) 2 1 ''post'' 1) = None \<and>
   karma_of (snd (Vote (forum_with_one_post True) 2 1 ''post'' 1)) 1 = Some 1 \<and>
   Vote (snd (Vote (forum_with_one_post True) 2 1 ''post'' 1)) 2 1 ''post'' 1 =
     (Some (FailedTo ''record vote'' UniqueFailed),
      snd (Vote (forum_with_one_post True) 2 1 ''post'' 1))"
  by (simp add: forum_with_one_post_eq Vote_def insert_vote_def update_karma_def author_of_def
        user_exists_def karma_of_def)

theorem revote_same_direction_rejected_witness:
  "Vote (forum_with_one_post False) 2 1 ''post'' 1 =
     (None, snd (Vote (forum_with_one_post False) 2 1 ''post'' 1)) \<and>
   MResetDatabase \<notin> set [MVote 2 1 ''post'' (- 1), MJoinSubreddit 2 1] \<and>
   length (votes (run [MVote 2 1 ''post'' (- 1), MJoinSubreddit 2 1]
                    (snd (Vote (forum_with_one_post False) 2 1 ''post'' 1)))) = 2 \<and>
   Vote (run [MVote 2 1 ''post'' (- 1), MJoinSubreddit 2 1]
           (snd (Vote (forum_with_one_post False) 2 1 ''post'' 1))) 2 1 ''post'' 1 =
     (Some (FailedTo ''record vote'' UniqueFailed),
      run [MVote 2 1 ''post'' (- 1), MJoinSubreddit 2 1]
        (snd (Vote (forum_with_one_post False) 2 1 ''post'' 1)))"
proof -
  have a: "Vote (forum_with_one_post False) 2 1 ''post'' 1 =
     (None, snd (Vote (forum_with_one_post False) 2 1 ''post'' 1))"
    by (simp add: forum_with_one_post_eq Vote_def insert_vote_def update_karma_def)
  have b: "MResetDatabase \<notin> set [MVote 2 1 ''post'' (- 1), MJoinSubreddit 2 1]"
    by simp
  have c: "length (votes (run [MVote 2 1 ''post'' (- 1), MJoinSubreddit 2 1]
                    (snd (Vote (forum_with_one_post False) 2 1 ''post'' 1)))) = 2"
    by (simp add: forum_with_one_post_eq eval_defs)
  from revote_same_direction_rejected [OF a b] a b c show ?thesis by simp
qed


lemma author_of_unknown:
  "(targetType = ''post'' \<and> \<not> post_exists db targetID) \<or>
   (targetType = ''comment'' \<and> \<not> comment_exists db targetID) \<Longrightarrow>
   author_of db targetType targetID = None"
  by (auto simp: author_of_def post_exists_def comment_exists_def find_None_iff)

text \<open>
  C6 (as amended): a cast vote on an unknown target (no post, respectively no comment, with
  that id) is not a failure. When the cast passes the ledger's own constraints (the value is
  +1 or -1, the same row is not in the ledger yet, and the voter is a registered user if
  foreign keys are enforced), the method returns no error, the vote row is appended, and
  nothing else in the store changes: no user's karma does.
\<close>

theorem vote_unknown_target_succeeds:
  assumes unknown: "(targetType = ''post'' \<and> \<not> post_exists db targetID) \<or>
                    (targetType = ''comment'' \<and> \<not> comment_exists db targetID)"
    and val: "val = 1 \<or> val = - 1"
    and fresh: "\<lparr>vote_user_id = userID, vote_target_id = targetID,
                 vote_target_type = targetType, vote_value = val\<rparr> \<notin> set (votes db)"
    and voter: "foreign_keys db \<longrightarrow> user_exists db userID"
  shows "Vote db userID targetID targetType val =
           (None, db\<lparr>votes := votes db @ [\<lparr>vote_user_id = userID, vote_target_id = targetID,
                                            vote_target_type = targetType, vote_value = val\<rparr>]\<rparr>)"
proof -
  let ?row = "\<lparr>vote_user_id = userID, vote_target_id = targetID,
                 vote_target_type = targetType, vote_value = val\<rparr>"
  have ins: "insert_vote db userID targetID targetType val = Inr (db\<lparr>votes := votes db @ [?row]\<rparr>)"
    using unknown val fresh voter by (auto simp: insert_vote_def)
  have "author_of (db\<lparr>votes := votes db @ [?row]\<rparr>) targetType targetID =
        author_of db targetType targetID"
    by (simp add: author_of_def)
  then have "author_of (db\<lparr>votes := votes db @ [?row]\<rparr>) targetType targetID = None"
    using author_of_unknown [OF unknown] by simp
  then have "update_karma (db\<lparr>votes := votes db @ [?row]\<rparr>) targetType val targetID =
      Inr (db\<lparr>votes := votes db @ [?row]\<rparr>)"
    by (simp add: update_karma_def)
  with ins show ?thesis by (simp add: Vote_def)
qed

text \<open>
  C6 as stated fails: there is no post 99 and no comment 99, and bob's votes on them are
  recorded without an error, with foreign keys off and on.
\<close>

theorem vote_unknown_target_counterexample:
  "Vote (forum_with_one_post False) 2 99 ''post'' 1 =
     (None, (forum_with_one_post False)
              \<lparr>votes := [\<lparr>vote_user_id = 2, vote_target_id = 99,
                           vote_target_type = ''post'', vote_value = 1\<rparr>]\<rparr>) \<and>
   Vote (forum_with_one_post True) 2 99 ''comment'' (- 1) =
     (None, (forum_with_one_post True)
              \<lparr>votes := [\<lparr>vote_user_id = 2, vote_target_id = 99,
                           vote_target_type = ''comment'', vote_value = - 1\<rparr>]\<rparr>) \<and>
   \<not> post_exists (forum_with_one_post False) 99 \<and>
   \<not> comment_exists (forum_with_one_post True) 99"
  by (simp add: forum_with_one_post_eq Vote_def insert_vote_def update_karma_def author_of_def
        user_exists_def post_exists_def comment_exists_def)

theorem vote_unknown_target_succeeds_witness:
  "\<not> post_exists (forum_with_one_post True) 7 \<and>
   user_exists (forum_with_one_post True) 2 \<and>
   votes (forum_with_one_post True) = [] \<and>
   Vote (forum_with_one_post True) 2 7 ''post'' 1 =
     (None, (forum_with_one_post True)
              \<lparr>votes := votes (forum_with_one_post True) @
                        [\<lparr>vote_user_id = 2, vote_target_id = 7,
                          vote_target_type = ''post'', vote_value = 1\<rparr>]\<rparr>) \<and>
   users (snd (Vote (forum_with_one_post True) 2 7 ''post'' 1)) = users (forum_with_one_post True)"
proof -
  have a: "\<not> post_exists (forum_with_one_post True) 7"
    by (simp add: forum_with_one_post_eq post_exists_def)
  have b: "user_exists (forum_with_one_post True) 2"
    by (simp add: forum_with_one_post_eq user_exists_def)
  have c: "votes (forum_with_one_post True) = []"
    by (simp add: forum_with_one_post_eq)
  from vote_unknown_target_succeeds [of "''post''" "forum_with_one_post True" 7 1 2] a b c
  show ?thesis by simp
qed


subsection \<open>Karma as the sum of the votes applied\<close>

lemma find_map_user:
  assumes "\<And>r. user_id (g r) = user_id r"
  shows "find (\<lambda>r. user_id r = a) (map g xs) = map_option g (find (\<lambda>r. user_id r = a) xs)"
  by (induction xs) (simp_all add: assms)

lemma Vote_karma:
  assumes "Vote db u t tt v = (None, db')"
  shows "karma_of db' a =
           (if author_of db tt t = Some a then map_option (\<lambda>k. k + v) (karma_of db a)
            else karma_of db a)"
proof -
  let ?g = "\<lambda>r. if Some (user_id r) = author_of db tt t then r\<lparr>karma := karma r + v\<rparr> else r"
  have u: "users db' = map ?g (users db)"
    using Vote_success(1) [OF assms] by simp
  have id: "user_id (?g r) = user_id r" for r by simp
  have f: "find (\<lambda>r. user_id r = a) (users db') =
        map_option ?g (find (\<lambda>r. user_id r = a) (users db))"
    unfolding u by (rule find_map_user) (rule id)
  show ?thesis
  proof (cases "find (\<lambda>r. user_id r = a) (users db)")
    case None
    with f show ?thesis by (simp add: karma_of_def)
  next
    case (Some r)
    from find_SomeD [OF Some] have "user_id r = a" by simp
    with f Some show ?thesis by (auto simp: karma_of_def)
  qed
qed

lemma Vote_user_exists:
  assumes "Vote db u t tt v = (None, db')"
  shows "user_exists db' a = user_exists db a"
  using Vote_karma [OF assms, of a] by (auto simp: user_exists_karma split: if_splits)

lemma author_of_registered:
  assumes "authors_registered db" and "author_of db tt t = Some a"
  shows "user_exists db a"
proof (cases "tt = ''post''")
  case True
  with assms(2) obtain p where "find (\<lambda>p. post_id p = t) (posts db) = Some p"
    and "post_author_id p = a"
    by (auto simp: author_of_def)
  with find_SomeD [of "\<lambda>p. post_id p = t" "posts db" p] assms(1)
  show ?thesis by (auto simp: authors_registered_def)
next
  case False
  with assms(2) obtain c where "find (\<lambda>c. comment_id c = t) (comments db) = Some c"
    and "comment_author_id c = a"
    by (auto simp: author_of_def)
  with find_SomeD [of "\<lambda>c. comment_id c = t" "comments db" c] assms(1)
  show ?thesis by (auto simp: authors_registered_def)
qed

lemma perform_users_unchanged:
  assumes "\<forall>name pw. m \<noteq> MRegisterUser name pw"
    and "\<forall>userID targetID targetType val. m \<noteq> MVote userID targetID targetType val"
    and "m \<noteq> MResetDatabase"
  shows "users (snd (perform m db)) = users db"
  using assms
  by (cases m)
     (auto simp: statement_defs method_defs Let_def split: sum.splits prod.splits if_splits)

lemma user_exists_cong: "users db' = users db \<Longrightarrow> user_exists db' a = user_exists db a"
  by (simp add: user_exists_def)

lemma karma_of_cong: "users db' = users db \<Longrightarrow> karma_of db' a = karma_of db a"
  by (simp add: karma_of_def)

lemma RegisterUser_user_exists:
  "user_exists db a \<Longrightarrow> user_exists (snd (RegisterUser db name pw)) a"
  using RegisterUser_karma [of db name pw a] by (simp add: user_exists_karma)

lemma perform_foreign_keys: "foreign_keys (snd (perform m db)) = foreign_keys db"
  by (cases m)
     (auto simp: ResetDatabase_eq statement_defs method_defs Let_def
           split: sum.splits prod.splits if_splits)

lemma perform_authors_registered:
  assumes "authors_registered db" and "author_known m db \<or> foreign_keys db"
  shows "authors_registered (snd (perform m db))"
proof (cases m)
  case (MRegisterUser name pw)
  from RegisterUser_cases [of db name pw] show ?thesis
  proof (elim disjE exE conjE)
    fix e assume "RegisterUser db name pw = (Inl e, db)"
    with assms MRegisterUser show ?thesis by simp
  next
    fix i db'
    assume r: "RegisterUser db name pw = (Inr i, db')"
      and "posts db' = posts db" "comments db' = comments db"
    moreover have "user_exists db a \<Longrightarrow> user_exists db' a" for a
      using RegisterUser_user_exists [of db a name pw] r by simp
    ultimately show ?thesis
      using assms(1) MRegisterUser by (simp add: authors_registered_def)
  qed
next
  case (MVote u t tt v)
  show ?thesis
  proof (cases "fst (Vote db u t tt v)")
    case None
    then have v: "Vote db u t tt v = (None, snd (Vote db u t tt v))"
      by (simp add: prod_eq_iff)
    from Vote_success(1) [OF v] have "posts (snd (Vote db u t tt v)) = posts db"
      "comments (snd (Vote db u t tt v)) = comments db" by simp_all
    with Vote_user_exists [OF v] assms(1) MVote show ?thesis
      by (simp add: authors_registered_def)
  next
    case (Some e)
    then have "Vote db u t tt v = (Some e, snd (Vote db u t tt v))"
      by (simp add: prod_eq_iff)
    from Vote_failure [OF this] assms(1) MVote show ?thesis by simp
  qed
next
  case MResetDatabase
  with assms(1) show ?thesis
    by (simp add: ResetDatabase_eq authors_registered_def)
next
  case (MCreatePost title content authorID subredditID)
  with assms show ?thesis
    by (auto simp: authors_registered_def CreatePost_def insert_post_def Let_def user_exists_def)
next
  case (MCreateComment content authorID postID parentCommentID)
  with assms show ?thesis
    by (auto simp: authors_registered_def CreateComment_def insert_comment_def Let_def
          user_exists_def)
qed (use assms(1) in \<open>auto simp: authors_registered_def user_exists_def statement_defs method_defs
       Let_def split: sum.splits prod.splits if_splits\<close>)


lemma perform_karma_step:
  assumes reg: "authors_registered db"
    and inv: "\<And>a. user_exists db a \<Longrightarrow> karma_of db a = Some (f a)"
    and zero: "\<And>a. \<not> user_exists db a \<Longrightarrow> f a = 0"
  shows "(user_exists (snd (perform m db)) a \<longrightarrow>
            karma_of (snd (perform m db)) a =
              Some (if m = MResetDatabase \<and> fst (perform m db) = None then 0
                    else f a + applied_to db m a)) \<and>
         (\<not> user_exists (snd (perform m db)) a \<longrightarrow>
            (if m = MResetDatabase \<and> fst (perform m db) = None then 0
             else f a + applied_to db m a) = 0)"
proof (cases m)
  case (MRegisterUser name pw)
  have "user_exists (snd (RegisterUser db name pw)) a \<longleftrightarrow>
        karma_of (snd (RegisterUser db name pw)) a \<noteq> None"
    by (rule user_exists_karma)
  with RegisterUser_karma [of db name pw a] inv [of a] zero [of a] MRegisterUser
  show ?thesis by (auto split: if_splits)
next
  case (MVote u t tt v)
  show ?thesis
  proof (cases "fst (Vote db u t tt v)")
    case None
    then have v: "Vote db u t tt v = (None, snd (Vote db u t tt v))"
      by (simp add: prod_eq_iff)
    have author: "author_of db tt t = Some a \<Longrightarrow> user_exists db a"
      using author_of_registered [OF reg] by blast
    from Vote_karma [OF v, of a] Vote_user_exists [OF v, of a] inv [of a] zero [of a] author
      None MVote
    show ?thesis by auto
  next
    case (Some e)
    then have "Vote db u t tt v = (Some e, snd (Vote db u t tt v))"
      by (simp add: prod_eq_iff)
    from Vote_failure [OF this] Some inv [of a] zero [of a] MVote show ?thesis by simp
  qed
next
  case MResetDatabase
  with inv [of a] zero [of a] show ?thesis
    by (simp add: ResetDatabase_eq user_exists_def)
next
  case (MCreateSubreddit x1 x2 x3)
  then have "users (snd (perform m db)) = users db"
    by (intro perform_users_unchanged) simp_all
  from user_exists_cong [OF this, of a] karma_of_cong [OF this, of a] inv [of a] zero [of a]
    MCreateSubreddit
  show ?thesis by simp
next
  case (MJoinSubreddit x1 x2)
  then have "users (snd (perform m db)) = users db"
    by (intro perform_users_unchanged) simp_all
  from user_exists_cong [OF this, of a] karma_of_cong [OF this, of a] inv [of a] zero [of a]
    MJoinSubreddit
  show ?thesis by simp
next
  case (MLeaveSubreddit x1 x2)
  then have "users (snd (perform m db)) = users db"
    by (intro perform_users_unchanged) simp_all
  from user_exists_cong [OF this, of a] karma_of_cong [OF this, of a] inv [of a] zero [of a]
    MLeaveSubreddit
  show ?thesis by simp
next
  case (MCreatePost x1 x2 x3 x4)
  then have "users (snd (perform m db)) = users db"
    by (intro perform_users_unchanged) simp_all
  from user_exists_cong [OF this, of a] karma_of_cong [OF this, of a] inv [of a] zero [of a]
    MCreatePost
  show ?thesis by simp
next
  case (MCreateComment x1 x2 x3 x4)
  then have "users (snd (perform m db)) = users db"
    by (intro perform_users_unchanged) simp_all
  from user_exists_cong [OF this, of a] karma_of_cong [OF this, of a] inv [of a] zero [of a]
    MCreateComment
  show ?thesis by simp
next
  case (MSendDirectMessage x1 x2 x3)
  then have "users (snd (perform m db)) = users db"
    by (intro perform_users_unchanged) simp_all
  from user_exists_cong [OF this, of a] karma_of_cong [OF this, of a] inv [of a] zero [of a]
    MSendDirectMessage
  show ?thesis by simp
next
  case (MSubscribeToUser x1 x2)
  then have "users (snd (perform m db)) = users db"
    by (intro perform_users_unchanged) simp_all
  from user_exists_cong [OF this, of a] karma_of_cong [OF this, of a] inv [of a] zero [of a]
    MSubscribeToUser
  show ?thesis by simp
next
  case (MUnsubscribeFromUser x1 x2)
  then have "users (snd (perform m db)) = users db"
    by (intro perform_users_unchanged) simp_all
  from user_exists_cong [OF this, of a] karma_of_cong [OF this, of a] inv [of a] zero [of a]
    MUnsubscribeFromUser
  show ?thesis by simp
qed

lemma run_karma:
  assumes "authors_known ms db \<or> foreign_keys db" and "authors_registered db"
    and "\<And>a. user_exists db a \<Longrightarrow> karma_of db a = Some (f a)"
    and "\<And>a. \<not> user_exists db a \<Longrightarrow> f a = 0"
  shows "user_exists (run ms db) a \<Longrightarrow> karma_of (run ms db) a = Some (vote_total ms db a (f a))"
  using assms
proof (induction ms arbitrary: db f)
  case Nil
  then show ?case by simp
next
  case (Cons m ms)
  let ?db = "snd (perform m db)"
  let ?f = "\<lambda>a. if m = MResetDatabase \<and> fst (perform m db) = None then 0
                 else f a + applied_to db m a"
  note step = perform_karma_step [of db f m, OF Cons.prems(3) Cons.prems(4) Cons.prems(5)]
  have known: "authors_known ms ?db \<or> foreign_keys ?db"
    and mk: "author_known m db \<or> foreign_keys db"
    using Cons.prems(2) by (auto simp: perform_foreign_keys)
  have reg: "authors_registered ?db"
    using perform_authors_registered [OF Cons.prems(3) mk] .
  have "karma_of (run ms ?db) a = Some (vote_total ms ?db a (?f a))"
  proof (rule Cons.IH [of ?db ?f])
    show "user_exists (run ms ?db) a" using Cons.prems(1) by simp
    show "authors_known ms ?db \<or> foreign_keys ?db" by (rule known)
    show "authors_registered ?db" by (rule reg)
    show "karma_of ?db b = Some (?f b)" if "user_exists ?db b" for b
      using step [of b] that by blast
    show "?f b = 0" if "\<not> user_exists ?db b" for b
      using step [of b] that by blast
  qed
  then show ?case by simp
qed

text \<open>
  C1 (as amended): a successful cast vote with value \<open>v\<close> appends one row to the ledger
  and, in the same transaction, changes the karma of exactly the users whose id is the
  author of the target at that moment, by exactly \<open>v\<close>; so when there is no such target, or
  its author is not a registered user, no karma changes. After any sequence of mutations
  from the empty store in which every post and comment is created by a registered user
  (every sequence, if foreign keys are enforced), the karma of every user is the sum of the
  values of the successful casts, since the last successful reset, on targets that existed
  and were authored by that user when the vote was cast.
\<close>

theorem karma_is_vote_total:
  "(Vote db userID targetID targetType val = (None, db') \<longrightarrow>
      votes db' = votes db @ [\<lparr>vote_user_id = userID, vote_target_id = targetID,
                                vote_target_type = targetType, vote_value = val\<rparr>] \<and>
      karma_of db' a =
        (if author_of db targetType targetID = Some a
         then map_option (\<lambda>k. k + val) (karma_of db a) else karma_of db a)) \<and>
   ((authors_known ms (empty_database fk) \<or> fk) \<longrightarrow>
      user_exists (run ms (empty_database fk)) a \<longrightarrow>
      karma_of (run ms (empty_database fk)) a = Some (vote_total ms (empty_database fk) a 0))"
proof (intro conjI impI)
  assume v: "Vote db userID targetID targetType val = (None, db')"
  from Vote_success(1) [OF v]
  show "votes db' = votes db @ [\<lparr>vote_user_id = userID, vote_target_id = targetID,
                                vote_target_type = targetType, vote_value = val\<rparr>]"
    by simp
  from Vote_karma [OF v]
  show "karma_of db' a =
        (if author_of db targetType targetID = Some a
         then map_option (\<lambda>k. k + val) (karma_of db a) else karma_of db a)" .
next
  assume known: "authors_known ms (empty_database fk) \<or> fk"
    and user: "user_exists (run ms (empty_database fk)) a"
  show "karma_of (run ms (empty_database fk)) a = Some (vote_total ms (empty_database fk) a 0)"
  proof (rule run_karma [where f = "\<lambda>_. 0"])
    show "authors_known ms (empty_database fk) \<or> foreign_keys (empty_database fk)"
      using known by (simp add: empty_database_def)
    show "authors_registered (empty_database fk)"
      by (simp add: authors_registered_def empty_database_def)
    show "user_exists (run ms (empty_database fk)) a" by (rule user)
    show "karma_of (empty_database fk) b = Some 0" if "user_exists (empty_database fk) b" for b
      using that by (simp add: user_exists_def empty_database_def)
    show "(0::int) = 0" by simp
  qed
qed

text \<open>
  C1 as stated fails for some sequences of mutations. First, as \<open>InitDatabase\<close> opens the
  store: a post is created under the author id 1 while no user 1 exists, a +1 vote on it
  succeeds and finds no user to credit, and the user registered next receives id 1; that
  user's karma is 0, while the votes applied to the post authored under id 1 add up to 1,
  also when read off the ledger. Second, with foreign keys on or off: a +1 vote on post 1
  is cast and recorded before post 1 exists; alice then creates post 1; her karma is 0 and
  the ledger holds a +1 vote on her post.
\<close>

theorem karma_invariant_counterexample:
  "user_exists (run [MCreatePost ''t'' ''c'' 1 1, MVote 2 1 ''post'' 1,
                     MRegisterUser ''alice'' ''pw''] InitDatabase) 1 \<and>
   karma_of (run [MCreatePost ''t'' ''c'' 1 1, MVote 2 1 ''post'' 1,
                  MRegisterUser ''alice'' ''pw''] InitDatabase) 1 = Some 0 \<and>
   vote_total [MCreatePost ''t'' ''c'' 1 1, MVote 2 1 ''post'' 1,
               MRegisterUser ''alice'' ''pw''] InitDatabase 1 0 = 1 \<and>
   ledger_total (run [MCreatePost ''t'' ''c'' 1 1, MVote 2 1 ''post'' 1,
                      MRegisterUser ''alice'' ''pw''] InitDatabase) 1 = 1 \<and>
   karma_of (run [MRegisterUser ''alice'' ''pw'', MRegisterUser ''bob'' ''pw'',
                  MCreateSubreddit ''go'' ''d'' 1, MVote 2 1 ''post'' 1,
                  MCreatePost ''t'' ''c'' 1 1] (empty_database True)) 1 = Some 0 \<and>
   ledger_total (run [MRegisterUser ''alice'' ''pw'', MRegisterUser ''bob'' ''pw'',
                      MCreateSubreddit ''go'' ''d'' 1, MVote 2 1 ''post'' 1,
                      MCreatePost ''t'' ''c'' 1 1] (empty_database True)) 1 = 1"
  by (simp add: eval_defs ledger_total_def)

theorem karma_is_vote_total_witness:
  "Vote (forum_with_one_post False) 2 1 ''post'' 1 =
     (None, snd (Vote (forum_with_one_post False) 2 1 ''post'' 1)) \<and>
   karma_of (forum_with_one_post False) 1 = Some 0 \<and>
   karma_of (snd (Vote (forum_with_one_post False) 2 1 ''post'' 1)) 1 = Some 1 \<and>
   authors_known [MRegisterUser ''alice'' ''pw'', MRegisterUser ''bob'' ''pw'',
                  MCreateSubreddit ''go'' ''d'' 1, MCreatePost ''t'' ''c'' 1 1,
                  MVote 2 1 ''post'' 1, MVote 1 1 ''post'' 1, MVote 2 1 ''post'' 1,
                  MVote 2 7 ''post'' 1] (empty_database False) \<and>
   vote_total [MRegisterUser ''alice'' ''pw'', MRegisterUser ''bob'' ''pw'',
                  MCreateSubreddit ''go'' ''d'' 1, MCreatePost ''t'' ''c'' 1 1,
                  MVote 2 1 ''post'' 1, MVote 1 1 ''post'' 1, MVote 2 1 ''post'' 1,
                  MVote 2 7 ''post'' 1] (empty_database False) 1 0 = 2 \<and>
   karma_of (run [MRegisterUser ''alice'' ''pw'', MRegisterUser ''bob'' ''pw'',
                  MCreateSubreddit ''go'' ''d'' 1, MCreatePost ''t'' ''c'' 1 1,
                  MVote 2 1 ''post'' 1, MVote 1 1 ''post'' 1, MVote 2 1 ''post'' 1,
                  MVote 2 7 ''post'' 1] (empty_database False)) 1 = Some 2"
proof -
  let ?ms = "[MRegisterUser ''alice'' ''pw'', MRegisterUser ''bob'' ''pw'',
                  MCreateSubreddit ''go'' ''d'' 1, MCreatePost ''t'' ''c'' 1 1,
                  MVote 2 1 ''post'' 1, MVote 1 1 ''post'' 1, MVote 2 1 ''post'' 1,
                  MVote 2 7 ''post'' 1]"
  have v: "Vote (forum_with_one_post False) 2 1 ''post'' 1 =
     (None, snd (Vote (forum_with_one_post False) 2 1 ''post'' 1))"
    by (simp add: forum_with_one_post_eq Vote_def insert_vote_def update_karma_def)
  have k0: "karma_of (forum_with_one_post False) 1 = Some 0"
    by (simp add: forum_with_one_post_eq karma_of_def)
  have au: "author_of (forum_with_one_post False) ''post'' 1 = Some 1"
    by (simp add: forum_with_one_post_eq author_of_def)
  have known: "authors_known ?ms (empty_database False)"
    by (simp add: eval_defs)
  have total: "vote_total ?ms (empty_database False) 1 0 = 2"
    by (simp add: eval_defs)
  have user: "user_exists (run ?ms (empty_database False)) 1"
    by (simp add: eval_defs)
  from karma_is_vote_total [of "forum_with_one_post False" 2 1 "''post''" 1
        "snd (Vote (forum_with_one_post False) 2 1 ''post'' 1)" 1 ?ms False]
    v k0 au known total user
  show ?thesis by simp
qed


subsection \<open>Comments and their parents\<close>

text \<open>
  With foreign keys enforced, a comment on a missing post, or under a missing parent other
  than the id the new comment is about to get, is turned down and nothing is written.
\<close>

lemma CreateComment_foreign_keys_enforced:
  assumes "foreign_keys db"
    and "\<not> post_exists db postID \<or>
         (\<exists>p. parentCommentID = Some p \<and> \<not> comment_exists db p \<and>
              p \<noteq> next_rowid db ''comments'' (map comment_id (comments db)))"
  shows "CreateComment db content authorID postID parentCommentID =
           (Inl (FailedTo ''create comment'' ForeignKeyFailed), db)"
  using assms by (auto simp: CreateComment_def insert_comment_def Let_def)

text \<open>
  C9: the claim that a comment whose post or parent does not exist is rejected. On the
  store as \<open>InitDatabase\<close> opens it (foreign keys off), bob's comment on the missing post 99
  under the missing parent 42 is accepted and stored. With foreign keys on, a comment that
  names the id it is about to receive as its parent is accepted too, so the first comment
  of the table can be its own parent.
\<close>

theorem CreateComment_missing_parent_accepted:
  "\<not> post_exists (forum_with_one_post False) 99 \<and>
   \<not> comment_exists (forum_with_one_post False) 42 \<and>
   CreateComment (forum_with_one_post False) ''hi'' 2 99 (Some 42) =
     (Inr 1, (forum_with_one_post False)
               \<lparr>comments := [\<lparr>comment_id = 1, comment_content = ''hi'', comment_author_id = 2,
                               comment_post_id = 99, parent_comment_id = Some 42\<rparr>],
                sqlite_sequence := [(''users'', 2), (''subreddits'', 1), (''posts'', 1),
                                    (''comments'', 1)]\<rparr>) \<and>
   CreateComment (forum_with_one_post True) ''hi'' 2 1 (Some 1) =
     (Inr 1, (forum_with_one_post True)
               \<lparr>comments := [\<lparr>comment_id = 1, comment_content = ''hi'', comment_author_id = 2,
                               comment_post_id = 1, parent_comment_id = Some 1\<rparr>],
                sqlite_sequence := [(''users'', 2), (''subreddits'', 1), (''posts'', 1),
                                    (''comments'', 1)]\<rparr>)"
  by (simp add: forum_with_one_post_eq CreateComment_def insert_comment_def next_rowid_def
        user_exists_def post_exists_def comment_exists_def)

subsection \<open>Reset\<close>

text \<open>
  A reset either fails and leaves the store as it was, or empties the seven tables of its
  list and removes their \<open>sqlite_sequence\<close> entries; \<open>user_subscriptions\<close> is not in the
  list and keeps its rows.
\<close>

lemma ResetDatabase_effect:
  "(\<exists>e. ResetDatabase db = (Some e, db)) \<or>
   (\<exists>db'. ResetDatabase db = (None, db') \<and>
      users db' = [] \<and> subreddits db' = [] \<and> subreddit_members db' = [] \<and> posts db' = [] \<and>
      comments db' = [] \<and> votes db' = [] \<and> direct_messages db' = [] \<and>
      user_subscriptions db' = user_subscriptions db \<and>
      sqlite_sequence db' = filter (\<lambda>r. fst r \<notin> set reset_tables) (sqlite_sequence db))"
  by (simp add: ResetDatabase_eq)

text \<open>
  C2: the claim that a successful reset leaves every table empty, subscriptions included.
  After bob has subscribed to alice, a reset with foreign keys off succeeds and the
  subscription row is still there, pointing at users that no longer exist; with foreign keys
  on, the same reset fails at \<open>DELETE FROM users\<close> and nothing is reset.
\<close>

theorem ResetDatabase_keeps_subscriptions:
  "SubscribeToUser (forum_with_one_post False) 2 1 =
     (None, (forum_with_one_post False)\<lparr>user_subscriptions := [(2, 1)]\<rparr>) \<and>
   ResetDatabase ((forum_with_one_post False)\<lparr>user_subscriptions := [(2, 1)]\<rparr>) =
     (None, (empty_database False)\<lparr>user_subscriptions := [(2, 1)]\<rparr>) \<and>
   SubscribeToUser (forum_with_one_post True) 2 1 =
     (None, (forum_with_one_post True)\<lparr>user_subscriptions := [(2, 1)]\<rparr>) \<and>
   ResetDatabase ((forum_with_one_post True)\<lparr>user_subscriptions := [(2, 1)]\<rparr>) =
     (Some (FailedTo ''delete from users'' ForeignKeyFailed),
      (forum_with_one_post True)\<lparr>user_subscriptions := [(2, 1)]\<rparr>)"
  by (simp add: forum_with_one_post_eq SubscribeToUser_def insert_or_ignore_subscription_def
        user_exists_def ResetDatabase_eq referenced_def reset_tables_def empty_database_def)


section \<open>Properties of the actor pool\<close>

lemma ProcessRequest_select:
  assumes "roundRobin p < length (actors p)"
  shows "\<exists>s p' db'. ProcessRequest p t pl c db = (Some s, p', db') \<and>
           worker_index s = roundRobin p \<and>
           actors p' = actors p \<and>
           roundRobin p' = (roundRobin p + 1) mod length (actors p)"
  using assms by (simp add: ProcessRequest_def Let_def split: prod.splits)

lemma submit_all_cyclic:
  "roundRobin p < length (actors p) \<Longrightarrow>
   map worker_index (submit_all p rs db) =
   map (\<lambda>k. (roundRobin p + k) mod length (actors p)) [0..<length rs]"
proof (induction rs arbitrary: p db)
  case Nil
  show ?case by simp
next
  case (Cons r rs)
  let ?n = "length (actors p)"
  from ProcessRequest_select [OF Cons.prems]
  obtain s p' db' where step:
    "ProcessRequest p (req_type r) (req_payload r) (req_user_id r) db = (Some s, p', db')"
    "worker_index s = roundRobin p" "actors p' = actors p"
    "roundRobin p' = (roundRobin p + 1) mod ?n"
    by blast
  have "0 < ?n" using Cons.prems by (cases "actors p") auto
  then have lt: "roundRobin p' < length (actors p')"
    using step(3,4) by simp
  have tail: "map worker_index (submit_all p' rs db') =
      map (\<lambda>k. (roundRobin p + Suc k) mod ?n) [0..<length rs]"
    using Cons.IH [OF lt] step(3,4) by (simp add: mod_add_left_eq)
  have "[0..<length (r # rs)] = 0 # map Suc [0..<length rs]"
    by (simp add: upt_conv_Cons map_Suc_upt del: upt_Suc)
  then show ?case
    using step(1,2) tail Cons.prems by (simp add: comp_def del: upt_Suc)
qed

text \<open>
  C4: for a pool of size \<open>N \<ge> 1\<close> in its fresh state, the k-th of K consecutive requests
  (counting from 0) goes to worker \<open>k mod N\<close>, whatever the kinds and payloads of the requests
  and whatever the database holds. Every one of the K requests is assigned. The time a worker
  takes is not part of the model: the selection reads nothing but the counter.
\<close>

theorem round_robin_assignment:
  "1 \<le> N \<Longrightarrow>
   map worker_index (submit_all (NewActorPool N) rs db) = map (\<lambda>k. k mod N) [0..<length rs]"
  using submit_all_cyclic [of "NewActorPool N" rs db] by (simp add: NewActorPool_def)

theorem round_robin_assignment_witness:
  "(1::nat) \<le> 3 \<and>
   map worker_index
     (submit_all (NewActorPool 3)
        [\<lparr>req_type = ''vote'', req_payload = VoteRequest 1 ''post'' 1, req_user_id = 2\<rparr>,
         \<lparr>req_type = ''join_subreddit'', req_payload = JoinSubredditRequest 4, req_user_id = 2\<rparr>,
         \<lparr>req_type = ''bogus'', req_payload = OtherPayload, req_user_id = 0\<rparr>,
         \<lparr>req_type = ''create_post'', req_payload = OtherPayload, req_user_id = 1\<rparr>,
         \<lparr>req_type = ''leave_subreddit'', req_payload = LeaveSubredditRequest 4, req_user_id = 2\<rparr>]
        InitDatabase) = [0, 1, 2, 0, 1]"
  using round_robin_assignment [of 3
        "[\<lparr>req_type = ''vote'', req_payload = VoteRequest 1 ''post'' 1, req_user_id = 2\<rparr>,
         \<lparr>req_type = ''join_subreddit'', req_payload = JoinSubredditRequest 4, req_user_id = 2\<rparr>,
         \<lparr>req_type = ''bogus'', req_payload = OtherPayload, req_user_id = 0\<rparr>,
         \<lparr>req_type = ''create_post'', req_payload = OtherPayload, req_user_id = 1\<rparr>,
         \<lparr>req_type = ''leave_subreddit'', req_payload = LeaveSubredditRequest 4, req_user_id = 2\<rparr>]"
        InitDatabase]
  by simp

lemma reply_once:
  "fst (case x of (err, db') \<Rightarrow> (if err \<noteq> None then [err] else [None], db')) = [fst x]"
  by (cases x) simp

lemma Receive_one: "\<exists>r. fst (Receive (RequestMessage msg) db) = [r]"
  unfolding Receive.simps Let_def by (rule exI, rule reply_once)

text \<open>
  C8: for every request delivered to a worker, of any request type (the unrecognised ones
  included) and any payload, and whether the store accepts the operation or not, the worker
  sends exactly one value on the request's result channel; and a \<open>ProcessRequest\<close> call on a
  pool with at least one worker receives that one value.
\<close>

theorem exactly_one_completion:
  "(\<exists>r. fst (Receive (RequestMessage msg) db) = [r]) \<and>
   (roundRobin p < length (actors p) \<longrightarrow>
      (\<exists>s p' db' r. ProcessRequest p t pl c db = (Some s, p', db') \<and>
                     sent s = [r] \<and> received s = Some r))"
proof (intro conjI impI)
  show "\<exists>r. fst (Receive (RequestMessage msg) db) = [r]" by (rule Receive_one)
next
  assume lt: "roundRobin p < length (actors p)"
  let ?m = "\<lparr>req_type = t, req_payload = pl, req_user_id = c\<rparr>"
  from Receive_one [of ?m db] obtain r where r: "fst (Receive (RequestMessage ?m) db) = [r]" ..
  obtain ch db' where rc: "Receive (RequestMessage ?m) db = (ch, db')"
    by (cases "Receive (RequestMessage ?m) db")
  with r have "ch = [r]" by simp
  with lt rc show "\<exists>s p' db' r. ProcessRequest p t pl c db = (Some s, p', db') \<and>
                   sent s = [r] \<and> received s = Some r"
    by (simp add: ProcessRequest_def Let_def)
qed

theorem exactly_one_completion_witness:
  "roundRobin (NewActorPool 2) < length (actors (NewActorPool 2)) \<and>
   (\<exists>s p' db' r. ProcessRequest (NewActorPool 2) ''bogus'' OtherPayload 0 InitDatabase
                    = (Some s, p', db') \<and> sent s = [r] \<and> received s = Some r)"
  using exactly_one_completion
    [of "\<lparr>req_type = ''bogus'', req_payload = OtherPayload, req_user_id = 0\<rparr>" InitDatabase
        "NewActorPool 2" "''bogus''" OtherPayload 0]
  by (simp add: NewActorPool_def)

end
